theory Spec2Isabelle
  imports Complex_Main
begin

section \<open>Numeric values, errors and arguments\<close>

text \<open>
  The quote tables of \<^verbatim>\<open>qlib/backtest/high_performance_ds.py\<close> hold floating-point
  numbers. A stored number is either the not-a-number sentinel or a finite number, written
  as the real it denotes; the sentinel is kept explicit because the code branches on it.
\<close>

datatype fval = NaN | Num real

text \<open>
  The elementwise \<^verbatim>\<open>!=\<close> of numpy follows IEEE 754: a comparison with NaN on either
  side is unordered, so \<^verbatim>\<open>!=\<close> answers True there, also for NaN against NaN.
\<close>

fun np_ne :: "fval \<Rightarrow> fval \<Rightarrow> bool" where
  "np_ne (Num x) (Num y) = (x \<noteq> y)"
| "np_ne _ _ = True"

text \<open>\<^verbatim>\<open>isna\<close>: the missing-value test of pandas.\<close>

fun isna :: "fval \<Rightarrow> bool" where
  "isna NaN = True"
| "isna (Num _) = False"

text \<open>Truth value of a number (\<^verbatim>\<open>all\<close>, \<^verbatim>\<open>any\<close>): everything but zero, NaN included.\<close>

fun truthy :: "fval \<Rightarrow> bool" where
  "truthy NaN = True"
| "truthy (Num x) = (x \<noteq> 0)"

text \<open>The exceptions the module raises, with the message where the code gives one.\<close>

datatype error = ValueError string | KeyError | IndexError

text \<open>
  A timestamp is a number of seconds; a frequency is a length of time in seconds.
  Entity ids, field names, metric names and metric labels are strings.
\<close>

type_synonym time = int

text \<open>
  The \<^verbatim>\<open>method\<close> argument is a string, a callable or None. The one callable that
  \<^verbatim>\<open>_agg_data\<close> recognises is \<^verbatim>\<open>ts_data_last\<close>; any other callable is given by
  its \<^verbatim>\<open>repr\<close>, the text the error message formats.
\<close>

datatype method_arg = MethodStr string | MethodTsDataLast | MethodCallable string

text \<open>
  The \<^verbatim>\<open>fields\<close> argument as \<^verbatim>\<open>PandasQuote.get_data\<close> dispatches on it: None, a
  string, or something else.
\<close>

datatype fields_arg = FieldsNone | FieldsStr string | FieldsOther

section \<open>The indexed table\<close>

text \<open>
  Modelled from the spec: the class \<^verbatim>\<open>IndexData.DataFrame\<close> of
  \<^verbatim>\<open>qlib/utils/index_data.py\<close> is not among the source files. The spec describes
  it as a 2-D numeric buffer indexed by time label on one axis and by field name on the
  other, with a mapping from each label to a fixed integer position. The row labels and
  the column names are kept in position order; \<^verbatim>\<open>index_map\<close> and \<^verbatim>\<open>columns_map\<close> are
  the label-to-position dictionaries the code reads.
\<close>

record table =
  index :: "time list"
  columns :: "string list"
  tvalues :: "fval list list"

fun position :: "'a list \<Rightarrow> nat \<Rightarrow> ('a \<rightharpoonup> nat)" where
  "position [] n = Map.empty"
| "position (l # ls) n = (\<lambda>k. if k = l then Some n else position ls (Suc n) k)"

definition index_map :: "table \<Rightarrow> (time \<rightharpoonup> nat)" where
  "index_map t = position (index t) 0"

definition columns_map :: "table \<Rightarrow> (string \<rightharpoonup> nat)" where
  "columns_map t = position (columns t) 0"

text \<open>
  \<^verbatim>\<open>values[i]\<close> and \<^verbatim>\<open>values[i, j]\<close> on the numeric buffer; a position outside the
  buffer raises IndexError.
\<close>

definition row_at :: "table \<Rightarrow> nat \<Rightarrow> error + fval list" where
  "row_at t i = (if i < length (tvalues t) then Inr (tvalues t ! i) else Inl IndexError)"

definition cell_at :: "table \<Rightarrow> nat \<Rightarrow> nat \<Rightarrow> error + fval" where
  "cell_at t i j =
     (case row_at t i of
        Inl e \<Rightarrow> Inl e
      | Inr r \<Rightarrow> if j < length r then Inr (r ! j) else Inl IndexError)"

text \<open>
  The shape of a table the constructor builds: one row of the buffer for each time label,
  one cell in each row for each column.
\<close>

definition table_ok :: "table \<Rightarrow> bool" where
  "table_ok t =
     (length (tvalues t) = length (index t)
      \<and> (\<forall>r \<in> set (tvalues t). length r = length (columns t)))"

text \<open>
  Modelled from the spec: \<^verbatim>\<open>loc(start, end)\<close> and \<^verbatim>\<open>loc(start, end, fields)\<close> of the
  missing \<^verbatim>\<open>IndexData.DataFrame\<close>. The spec: the multi-timestamp path slices the rows
  in \<^verbatim>\<open>[start, end]\<close> inclusive by label range; a lookup by label resolves to an exact
  position or fails. The slice keeps the labels with the rows. With a field, the slice
  is the labelled column of that field, and a field that is no column fails.
\<close>

definition loc :: "table \<Rightarrow> time \<Rightarrow> time \<Rightarrow> (time \<times> fval list) list" where
  "loc t start_time end_time =
     filter (\<lambda>(l, r). start_time \<le> l \<and> l \<le> end_time) (zip (index t) (tvalues t))"

definition loc_field :: "table \<Rightarrow> time \<Rightarrow> time \<Rightarrow> string \<Rightarrow> error + (time \<times> fval) list" where
  "loc_field t start_time end_time field =
     (case columns_map t field of
        None \<Rightarrow> Inl KeyError
      | Some j \<Rightarrow>
          if \<forall>r \<in> set (tvalues t). j < length r
          then Inr (map (\<lambda>(l, r). (l, r ! j)) (loc t start_time end_time))
          else Inl IndexError)"

text \<open>
  Modelled from the spec: \<^verbatim>\<open>if_single_data\<close> of the missing \<^verbatim>\<open>qlib/utils/time.py\<close>.
  The spec: the single-timestamp fast path is taken when start equals end and both align
  to the table's native frequency.
\<close>

definition if_single_data :: "time \<Rightarrow> time \<Rightarrow> int \<Rightarrow> bool" where
  "if_single_data start_time end_time freq =
     (start_time = end_time \<and> start_time mod freq = 0 \<and> end_time mod freq = 0)"

section \<open>The quote engine\<close>

text \<open>What \<^verbatim>\<open>get_data\<close> hands back when it is not None.\<close>

datatype quote_data =
    QScalar fval
  | QBool bool
  | QRow "fval list"
  | QArray "fval list list"
  | QSeries "(time \<times> fval) list"

subsection \<open>The performance backend\<close>

record CN1min_NumpyQuote =
  nq_data :: "string \<rightharpoonup> table"
  nq_freq :: int

definition nansum :: "fval list \<Rightarrow> fval" where
  "nansum data = Num (sum_list (map (\<lambda>v. case v of NaN \<Rightarrow> 0 | Num x \<Rightarrow> x) data))"

definition nanmean :: "fval list \<Rightarrow> fval" where
  "nanmean data =
     (let present = filter (\<lambda>v. \<not> isna v) data
      in if present = [] then NaN
         else case nansum present of
                Num s \<Rightarrow> Num (s / real (length present))
              | NaN \<Rightarrow> NaN)"

text \<open>
  \<^verbatim>\<open>_agg_data(data, method)\<close>. The chain of comparisons is kept in the source's order;
  the last branch before the error selects \<^verbatim>\<open>data[data != np.NaN]\<close>.
\<close>

text \<open>
  The text of \<^verbatim>\<open>f"{method}"\<close>: a string is itself, a callable its \<^verbatim>\<open>repr\<close>.
  \<^verbatim>\<open>_agg_data\<close> formats it only after the comparison with \<^verbatim>\<open>ts_data_last\<close> has
  failed, so the second equation is never used there.
\<close>

fun method_str :: "method_arg \<Rightarrow> string" where
  "method_str (MethodStr s) = s"
| "method_str MethodTsDataLast = ''<function ts_data_last>''"
| "method_str (MethodCallable r) = r"

definition agg_data :: "fval list \<Rightarrow> method_arg \<Rightarrow> error + quote_data option" where
  "agg_data data method =
     (if method = MethodStr ''sum'' then Inr (Some (QScalar (nansum data)))
      else if method = MethodStr ''mean'' then Inr (Some (QScalar (nanmean data)))
      else if method = MethodStr ''last'' then
        (if data = [] then Inl IndexError else Inr (Some (QScalar (last data))))
      else if method = MethodStr ''all'' then Inr (Some (QBool (list_all truthy data)))
      else if method = MethodStr ''any'' then Inr (Some (QBool (list_ex truthy data)))
      else if method = MethodTsDataLast then
        (let valid_data = filter (\<lambda>v. np_ne v NaN) data
         in if length valid_data = 0 then Inr None
            else Inr (Some (QScalar (valid_data ! 0))))
      else Inl (ValueError (method_str method @ '' is not supported'')))"

text \<open>
  \<^verbatim>\<open>CN1min_NumpyQuote.get_data\<close>, at the argument types its signature declares
  (\<^verbatim>\<open>fields\<close> is a string or None). The last case of the multi-timestamp branch is the
  fall-through of the source's \<^verbatim>\<open>if/elif\<close> chain, which returns None.
\<close>

definition CN1min_NumpyQuote_get_data ::
  "CN1min_NumpyQuote \<Rightarrow> string \<Rightarrow> time \<Rightarrow> time \<Rightarrow> string option \<Rightarrow> method_arg option
     \<Rightarrow> error + quote_data option" where
  "CN1min_NumpyQuote_get_data self stock_id start_time end_time field method =
     (if field = None \<and> method \<noteq> None
      then Inl (ValueError ''method must be None when fields is None'')
      else case nq_data self stock_id of
        None \<Rightarrow> Inr None
      | Some df \<Rightarrow>
          if if_single_data start_time end_time (nq_freq self) then
            (case index_map df start_time of
               None \<Rightarrow> Inr None
             | Some i \<Rightarrow>
                 (case field of
                    None \<Rightarrow> map_sum id (\<lambda>r. Some (QRow r)) (row_at df i)
                  | Some f \<Rightarrow>
                      (case columns_map df f of
                         None \<Rightarrow> Inl KeyError
                       | Some j \<Rightarrow> map_sum id (\<lambda>v. Some (QScalar v)) (cell_at df i j))))
          else
            (case (field, method) of
               (None, None) \<Rightarrow>
                 (let stock_data = loc df start_time end_time
                  in if stock_data = [] then Inr None
                     else Inr (Some (QArray (map snd stock_data))))
             | (Some f, None) \<Rightarrow>
                 (case loc_field df start_time end_time f of
                    Inl e \<Rightarrow> Inl e
                  | Inr stock_data \<Rightarrow>
                      if stock_data = [] then Inr None
                      else Inr (Some (QSeries stock_data)))
             | (Some f, Some m) \<Rightarrow>
                 (case loc_field df start_time end_time f of
                    Inl e \<Rightarrow> Inl e
                  | Inr stock_data \<Rightarrow>
                      if stock_data = [] then Inr None
                      else if length stock_data = 1 then Inr (Some (QScalar (snd (stock_data ! 0))))
                      else agg_data (map snd stock_data) m)
             | (None, Some m) \<Rightarrow> Inr None))"

subsection \<open>The reference backend\<close>

text \<open>
  What pandas objects \<^verbatim>\<open>resam_ts_data\<close> takes and gives: a number, a boolean, a
  labelled series, a labelled table, or something else.
\<close>

datatype pd_obj =
    PdNumber fval
  | PdBool bool
  | PdSeries "(time \<times> fval) list"
  | PdDataFrame table
  | PdOther

record PandasQuote =
  pq_data :: "string \<rightharpoonup> table"

text \<open>\<^verbatim>\<open>df[field]\<close> on a pandas table: the labelled column, KeyError for an unknown name.\<close>

definition pd_column :: "table \<Rightarrow> string \<Rightarrow> error + (time \<times> fval) list" where
  "pd_column df field =
     (case columns_map df field of
        None \<Rightarrow> Inl KeyError
      | Some j \<Rightarrow>
          if \<forall>r \<in> set (tvalues df). j < length r
          then Inr (map (\<lambda>(l, r). (l, r ! j)) (zip (index df) (tvalues df)))
          else Inl IndexError)"

text \<open>
  \<^verbatim>\<open>PandasQuote.get_data\<close>. The function \<^verbatim>\<open>resam_ts_data\<close> of the missing
  \<^verbatim>\<open>qlib/utils/resam.py\<close> is a parameter. Python evaluates the arguments of a call
  before the call: the subscripts \<^verbatim>\<open>self.data[stock_id]\<close> and \<^verbatim>\<open>[fields]\<close> come first.
\<close>

definition PandasQuote_get_data ::
  "(pd_obj \<Rightarrow> time \<Rightarrow> time \<Rightarrow> method_arg option \<Rightarrow> error + pd_obj option)
     \<Rightarrow> PandasQuote \<Rightarrow> string \<Rightarrow> time \<Rightarrow> time \<Rightarrow> fields_arg \<Rightarrow> method_arg option
     \<Rightarrow> error + quote_data option" where
  "PandasQuote_get_data resam_ts_data self stock_id start_time end_time field method =
     (if field = FieldsNone \<and> method \<noteq> None
      then Inl (ValueError ''method must be None when fields is None'')
      else
        (case
           (case field of
              FieldsNone \<Rightarrow>
                (case pq_data self stock_id of
                   None \<Rightarrow> Inl KeyError
                 | Some df \<Rightarrow> resam_ts_data (PdDataFrame df) start_time end_time method)
            | FieldsStr f \<Rightarrow>
                (case pq_data self stock_id of
                   None \<Rightarrow> Inl KeyError
                 | Some df \<Rightarrow>
                     (case pd_column df f of
                        Inl e \<Rightarrow> Inl e
                      | Inr col \<Rightarrow> resam_ts_data (PdSeries col) start_time end_time method))
            | FieldsOther \<Rightarrow> Inl (ValueError ''fields must be None, str''))
         of
           Inl e \<Rightarrow> Inl e
         | Inr stock_data \<Rightarrow>
             (case stock_data of
                None \<Rightarrow> Inr None
              | Some (PdNumber v) \<Rightarrow> Inr (Some (QScalar v))
              | Some (PdBool b) \<Rightarrow> Inr (Some (QBool b))
              | Some (PdSeries s) \<Rightarrow> Inr (Some (QSeries s))
              | Some (PdDataFrame d) \<Rightarrow> Inr (Some (QArray (tvalues d)))
              | Some PdOther \<Rightarrow>
                  Inl (ValueError
                    ''stock data from resam_ts_data must be a number, pd.Series or pd.DataFrame''))))"

section \<open>Single metrics\<close>

subsection \<open>The arithmetic of the entries\<close>

text \<open>
  A pandas series computes in its dtype: an int64 series wraps around, a float64 series
  rounds, and a series whose labels are extended is cast so that it can hold NaN. The
  entries of a series are therefore values of a type \<open>'v\<close>, the values as numpy stores
  them, and the operations of numpy on them are taken as they are:
  \<^item> \<open>v_add\<close> and \<open>v_sub\<close>: \<^verbatim>\<open>+\<close> and \<^verbatim>\<open>-\<close> on two values, in numpy's result dtype;
  \<^item> \<open>v_isna\<close>: the missing-value test \<^verbatim>\<open>isna\<close>, and \<open>v_nan\<close>: the value NaN;
  \<^item> \<open>v_upcast\<close>: the value after its series has been reindexed on labels it lacks
    (an int64 value becomes the float64 value numpy converts it to);
  \<^item> \<open>v_int\<close>: the value numpy makes of a Python int that is an operand;
  \<^item> \<open>v_fill\<close>: the value that the assignment of a fill value stores in a reindexed
    series.
  A Python float is a float64 value already.
\<close>

datatype 'v scalar = PyInt int | PyFloat 'v

record 'v arithmetic =
  v_add :: "'v \<Rightarrow> 'v \<Rightarrow> 'v"
  v_sub :: "'v \<Rightarrow> 'v \<Rightarrow> 'v"
  v_isna :: "'v \<Rightarrow> bool"
  v_nan :: "'v"
  v_upcast :: "'v \<Rightarrow> 'v"
  v_int :: "int \<Rightarrow> 'v"
  v_fill :: "'v scalar \<Rightarrow> 'v"

subsection \<open>Series\<close>

text \<open>
  A pandas series of a metric: a value for each label it holds. Labels are unique, so the
  series is a finite map from labels to values; its length is the number of labels and
  the empty series \<^verbatim>\<open>pd.Series()\<close> is the empty map.
\<close>

type_synonym 'v series = "string \<rightharpoonup> 'v"

text \<open>
  Two series are aligned on the union of their labels before an operation. A series that
  holds every label of the other one keeps its values. A series that lacks a label of the
  other one is reindexed: it reads NaN at the labels it lacks, and its own values are cast.
\<close>

definition reindexed :: "'v arithmetic \<Rightarrow> 'v series \<Rightarrow> 'v series \<Rightarrow> string \<Rightarrow> 'v" where
  "reindexed ar s other l =
     (case s l of
        None \<Rightarrow> v_nan ar
      | Some v \<Rightarrow> if dom other \<subseteq> dom s then v else v_upcast ar v)"

text \<open>
  \<^verbatim>\<open>fill_binop\<close> of pandas, at one label: with a fill value, a side that is missing
  while the other side is not takes the fill value; where both sides are missing, both
  stay missing.
\<close>

definition fill_binop :: "'v arithmetic \<Rightarrow> 'v \<Rightarrow> 'v \<Rightarrow> 'v scalar option \<Rightarrow> 'v \<times> 'v" where
  "fill_binop ar left right fill_value =
     (case fill_value of
        None \<Rightarrow> (left, right)
      | Some fv \<Rightarrow>
          (let left_mask = v_isna ar left;
               right_mask = v_isna ar right;
               mask = (left_mask \<noteq> right_mask)
           in (if left_mask \<and> mask then v_fill ar fv else left,
               if right_mask \<and> mask then v_fill ar fv else right)))"

text \<open>\<^verbatim>\<open>Series.add(other, fill_value)\<close>, and the operators between two series.\<close>

definition pd_add :: "'v arithmetic \<Rightarrow> 'v series \<Rightarrow> 'v series \<Rightarrow> 'v scalar option \<Rightarrow> 'v series" where
  "pd_add ar a b fill_value =
     (\<lambda>l. if a l = None \<and> b l = None then None
          else (let (x, y) = fill_binop ar (reindexed ar a b l) (reindexed ar b a l) fill_value
                in Some (v_add ar x y)))"

definition pd_binop ::
  "'v arithmetic \<Rightarrow> ('v \<Rightarrow> 'v \<Rightarrow> 'v) \<Rightarrow> 'v series \<Rightarrow> 'v series \<Rightarrow> 'v series" where
  "pd_binop ar f a b =
     (\<lambda>l. if a l = None \<and> b l = None then None
          else Some (f (reindexed ar a b l) (reindexed ar b a l)))"

text \<open>A series against a scalar: the scalar is broadcast to every entry.\<close>

definition pd_scalar_right :: "('v \<Rightarrow> 'v \<Rightarrow> 'v) \<Rightarrow> 'v series \<Rightarrow> 'v \<Rightarrow> 'v series" where
  "pd_scalar_right f a c = (\<lambda>l. map_option (\<lambda>v. f v c) (a l))"

definition pd_scalar_left :: "('v \<Rightarrow> 'v \<Rightarrow> 'v) \<Rightarrow> 'v \<Rightarrow> 'v series \<Rightarrow> 'v series" where
  "pd_scalar_left f c a = (\<lambda>l. map_option (\<lambda>v. f c v) (a l))"

subsection \<open>The metric classes\<close>

datatype 'v PandasSingleMetric = PandasSingleMetric (metric: "'v series")

text \<open>
  What a metric is built from: a dict, a pandas series, or something else. The entries
  of a dict are given as the values the series built from it stores.
\<close>

datatype 'v metric_arg = ArgDict "'v series" | ArgSeries "'v series" | ArgOther

definition PandasSingleMetric_init :: "'v metric_arg \<Rightarrow> error + 'v PandasSingleMetric" where
  "PandasSingleMetric_init m =
     (case m of
        ArgDict d \<Rightarrow> Inr (PandasSingleMetric d)
      | ArgSeries s \<Rightarrow> Inr (PandasSingleMetric s)
      | ArgOther \<Rightarrow> Inl (ValueError ''metric must be dict or pd.Series''))"

text \<open>
  The other operand of an operator method: an int, a float, a metric of the same class,
  or anything else. An operator method answers with a new metric or with
  \<^verbatim>\<open>NotImplemented\<close>.
\<close>

datatype 'v operand = OpInt int | OpFloat 'v | OpMetric "'v PandasSingleMetric" | OpOther

datatype 'a dispatch = NotImplemented | Returned 'a

definition SingleMetric_add ::
  "'v arithmetic \<Rightarrow> 'v PandasSingleMetric \<Rightarrow> 'v operand \<Rightarrow> 'v PandasSingleMetric dispatch" where
  "SingleMetric_add ar self other =
     (case other of
        OpInt n \<Rightarrow>
          Returned (PandasSingleMetric (pd_scalar_right (v_add ar) (metric self) (v_int ar n)))
      | OpFloat c \<Rightarrow> Returned (PandasSingleMetric (pd_scalar_right (v_add ar) (metric self) c))
      | OpMetric m \<Rightarrow>
          Returned (PandasSingleMetric (pd_binop ar (v_add ar) (metric self) (metric m)))
      | OpOther \<Rightarrow> NotImplemented)"

definition SingleMetric_sub ::
  "'v arithmetic \<Rightarrow> 'v PandasSingleMetric \<Rightarrow> 'v operand \<Rightarrow> 'v PandasSingleMetric dispatch" where
  "SingleMetric_sub ar self other =
     (case other of
        OpInt n \<Rightarrow>
          Returned (PandasSingleMetric (pd_scalar_right (v_sub ar) (metric self) (v_int ar n)))
      | OpFloat c \<Rightarrow> Returned (PandasSingleMetric (pd_scalar_right (v_sub ar) (metric self) c))
      | OpMetric m \<Rightarrow>
          Returned (PandasSingleMetric (pd_binop ar (v_sub ar) (metric self) (metric m)))
      | OpOther \<Rightarrow> NotImplemented)"

definition SingleMetric_rsub ::
  "'v arithmetic \<Rightarrow> 'v PandasSingleMetric \<Rightarrow> 'v operand \<Rightarrow> 'v PandasSingleMetric dispatch" where
  "SingleMetric_rsub ar self other =
     (case other of
        OpInt n \<Rightarrow>
          Returned (PandasSingleMetric (pd_scalar_left (v_sub ar) (v_int ar n) (metric self)))
      | OpFloat c \<Rightarrow> Returned (PandasSingleMetric (pd_scalar_left (v_sub ar) c (metric self)))
      | OpMetric m \<Rightarrow>
          Returned (PandasSingleMetric (pd_binop ar (v_sub ar) (metric m) (metric self)))
      | OpOther \<Rightarrow> NotImplemented)"

definition SingleMetric_len :: "'v PandasSingleMetric \<Rightarrow> nat" where
  "SingleMetric_len self = card (dom (metric self))"

definition PandasSingleMetric_empty :: "'v PandasSingleMetric \<Rightarrow> bool" where
  "PandasSingleMetric_empty self = (metric self = Map.empty)"

definition PandasSingleMetric_add ::
  "'v arithmetic \<Rightarrow> 'v PandasSingleMetric \<Rightarrow> 'v PandasSingleMetric \<Rightarrow> 'v scalar option
     \<Rightarrow> 'v PandasSingleMetric" where
  "PandasSingleMetric_add ar self other fill_value =
     PandasSingleMetric (pd_add ar (metric self) (metric other) fill_value)"

section \<open>Order indicators\<close>

text \<open>
  \<^verbatim>\<open>metrics\<close> is one name or a list of names; a single name is wrapped in a list.
\<close>

datatype metrics_arg = MetricsStr string | MetricsList "string list"

definition metric_names :: "metrics_arg \<Rightarrow> string list" where
  "metric_names metrics = (case metrics of MetricsStr m \<Rightarrow> [m] | MetricsList ms \<Rightarrow> ms)"

text \<open>An optional argument of a call: left out, or passed (None is a value one can pass).\<close>

datatype 'a arg = Omitted | Passed 'a

definition arg_or_default :: "'a \<Rightarrow> 'a arg \<Rightarrow> 'a" where
  "arg_or_default d a = (case a of Omitted \<Rightarrow> d | Passed v \<Rightarrow> v)"

subsection \<open>The reference backend\<close>

record 'v PandasOrderIndicator =
  po_data :: "string \<rightharpoonup> 'v PandasSingleMetric"

definition PandasOrderIndicator_init :: "'v PandasOrderIndicator" where
  "PandasOrderIndicator_init = \<lparr>po_data = Map.empty\<rparr>"

definition PandasOrderIndicator_assign ::
  "'v PandasOrderIndicator \<Rightarrow> string \<Rightarrow> 'v metric_arg \<Rightarrow> error + 'v PandasOrderIndicator" where
  "PandasOrderIndicator_assign self col m =
     (case PandasSingleMetric_init m of
        Inl e \<Rightarrow> Inl e
      | Inr sm \<Rightarrow> Inr (self\<lparr>po_data := (po_data self)(col \<mapsto> sm)\<rparr>))"

definition PandasOrderIndicator_get_metric_series ::
  "'v PandasOrderIndicator \<Rightarrow> string \<Rightarrow> error + 'v series" where
  "PandasOrderIndicator_get_metric_series self name =
     (case po_data self name of
        Some m \<Rightarrow> Inr (metric m)
      | None \<Rightarrow> Inr Map.empty)"

text \<open>
  The inner loop of \<^verbatim>\<open>sum_all_indicators\<close>: the accumulator takes each indicator's
  metric in list order; \<^verbatim>\<open>indicator.data[metric]\<close> raises KeyError for an indicator
  without the metric.
\<close>

fun pandas_sum_metric ::
  "'v arithmetic \<Rightarrow> 'v PandasSingleMetric \<Rightarrow> 'v PandasOrderIndicator list \<Rightarrow> string
     \<Rightarrow> 'v scalar option \<Rightarrow> error + 'v PandasSingleMetric" where
  "pandas_sum_metric ar tmp_metric [] name fill_value = Inr tmp_metric"
| "pandas_sum_metric ar tmp_metric (indicator # indicators) name fill_value =
     (case po_data indicator name of
        None \<Rightarrow> Inl KeyError
      | Some m \<Rightarrow>
          pandas_sum_metric ar (PandasSingleMetric_add ar tmp_metric m fill_value)
            indicators name fill_value)"

text \<open>
  The outer loop over the metric names. The target is updated name by name; the
  indicators summed are taken to be other objects than the target.
\<close>

fun pandas_sum_metrics ::
  "'v arithmetic \<Rightarrow> 'v PandasOrderIndicator \<Rightarrow> 'v PandasOrderIndicator list \<Rightarrow> string list
     \<Rightarrow> 'v scalar option \<Rightarrow> error + 'v PandasOrderIndicator" where
  "pandas_sum_metrics ar order_indicator indicators [] fill_value = Inr order_indicator"
| "pandas_sum_metrics ar order_indicator indicators (name # names) fill_value =
     (case PandasSingleMetric_init (ArgDict Map.empty) of
        Inl e \<Rightarrow> Inl e
      | Inr tmp0 \<Rightarrow>
          (case pandas_sum_metric ar tmp0 indicators name fill_value of
             Inl e \<Rightarrow> Inl e
           | Inr tmp_metric \<Rightarrow>
               (case PandasOrderIndicator_assign order_indicator name (ArgSeries (metric tmp_metric)) of
                  Inl e \<Rightarrow> Inl e
                | Inr order_indicator' \<Rightarrow>
                    pandas_sum_metrics ar order_indicator' indicators names fill_value)))"

text \<open>The default of \<^verbatim>\<open>fill_value\<close> in the signature: None.\<close>

definition PandasOrderIndicator_fill_value_default :: "'v scalar option" where
  "PandasOrderIndicator_fill_value_default = None"

definition PandasOrderIndicator_sum_all_indicators ::
  "'v arithmetic \<Rightarrow> 'v PandasOrderIndicator \<Rightarrow> 'v PandasOrderIndicator list \<Rightarrow> metrics_arg
     \<Rightarrow> 'v scalar option arg \<Rightarrow> error + 'v PandasOrderIndicator" where
  "PandasOrderIndicator_sum_all_indicators ar order_indicator indicators metrics fill_value =
     pandas_sum_metrics ar order_indicator indicators (metric_names metrics)
       (arg_or_default PandasOrderIndicator_fill_value_default fill_value)"

subsection \<open>The performance backend\<close>

text \<open>
  Modelled from the spec: \<^verbatim>\<open>IndexData.Series\<close> of the missing
  \<^verbatim>\<open>qlib/utils/index_data.py\<close>. The spec: a 1-D numeric vector indexed by label;
  \<^verbatim>\<open>IndexData.Series()\<close> is an empty one, \<^verbatim>\<open>IndexData.Series(metric)\<close> holds the
  entries of the mapping it is built from, and \<^verbatim>\<open>to_pd_series\<close> gives the same entries
  as a plain labelled series. Its \<^verbatim>\<open>add\<close> is a parameter of the functions that call it.
\<close>

datatype 'v index_series = IndexSeries (entries: "'v series")

definition IndexData_Series_empty :: "'v index_series" where
  "IndexData_Series_empty = IndexSeries Map.empty"

definition IndexData_Series :: "'v series \<Rightarrow> 'v index_series" where
  "IndexData_Series m = IndexSeries m"

definition to_pd_series :: "'v index_series \<Rightarrow> 'v series" where
  "to_pd_series s = entries s"

record 'v NumpyOrderIndicator =
  no_data :: "string \<rightharpoonup> 'v index_series"

definition NumpyOrderIndicator_init :: "'v NumpyOrderIndicator" where
  "NumpyOrderIndicator_init = \<lparr>no_data = Map.empty\<rparr>"

definition NumpyOrderIndicator_assign ::
  "'v NumpyOrderIndicator \<Rightarrow> string \<Rightarrow> 'v series \<Rightarrow> 'v NumpyOrderIndicator" where
  "NumpyOrderIndicator_assign self col m = self\<lparr>no_data := (no_data self)(col \<mapsto> IndexData_Series m)\<rparr>"

definition NumpyOrderIndicator_get_index_data ::
  "'v NumpyOrderIndicator \<Rightarrow> string \<Rightarrow> 'v index_series" where
  "NumpyOrderIndicator_get_index_data self name =
     (case no_data self name of
        Some s \<Rightarrow> s
      | None \<Rightarrow> IndexData_Series_empty)"

text \<open>
  \<^verbatim>\<open>get_metric_series\<close> subscripts \<^verbatim>\<open>self.data[metric]\<close> with no test before it: a
  name that is no key raises KeyError.
\<close>

definition NumpyOrderIndicator_get_metric_series ::
  "'v NumpyOrderIndicator \<Rightarrow> string \<Rightarrow> error + 'v series" where
  "NumpyOrderIndicator_get_metric_series self name =
     (case no_data self name of
        None \<Rightarrow> Inl KeyError
      | Some s \<Rightarrow> Inr (to_pd_series s))"

fun numpy_sum_metric ::
  "('v index_series \<Rightarrow> 'v index_series \<Rightarrow> 'v scalar option \<Rightarrow> error + 'v index_series)
     \<Rightarrow> 'v index_series \<Rightarrow> 'v NumpyOrderIndicator list \<Rightarrow> string \<Rightarrow> 'v scalar option
     \<Rightarrow> error + 'v index_series" where
  "numpy_sum_metric add tmp_metric [] name fill_value = Inr tmp_metric"
| "numpy_sum_metric add tmp_metric (indicator # indicators) name fill_value =
     (case no_data indicator name of
        None \<Rightarrow> Inl KeyError
      | Some m \<Rightarrow>
          (case add tmp_metric m fill_value of
             Inl e \<Rightarrow> Inl e
           | Inr tmp_metric' \<Rightarrow> numpy_sum_metric add tmp_metric' indicators name fill_value))"

fun numpy_sum_metrics ::
  "('v index_series \<Rightarrow> 'v index_series \<Rightarrow> 'v scalar option \<Rightarrow> error + 'v index_series)
     \<Rightarrow> 'v NumpyOrderIndicator \<Rightarrow> 'v NumpyOrderIndicator list \<Rightarrow> string list
     \<Rightarrow> 'v scalar option \<Rightarrow> error + 'v NumpyOrderIndicator" where
  "numpy_sum_metrics add order_indicator indicators [] fill_value = Inr order_indicator"
| "numpy_sum_metrics add order_indicator indicators (name # names) fill_value =
     (case numpy_sum_metric add IndexData_Series_empty indicators name fill_value of
        Inl e \<Rightarrow> Inl e
      | Inr tmp_metric \<Rightarrow>
          numpy_sum_metrics add
            (order_indicator\<lparr>no_data := (no_data order_indicator)(name \<mapsto> tmp_metric)\<rparr>)
            indicators names fill_value)"

text \<open>The default of \<^verbatim>\<open>fill_value\<close> in the signature: the int 0.\<close>

definition NumpyOrderIndicator_fill_value_default :: "'v scalar option" where
  "NumpyOrderIndicator_fill_value_default = Some (PyInt 0)"

definition NumpyOrderIndicator_sum_all_indicators ::
  "('v index_series \<Rightarrow> 'v index_series \<Rightarrow> 'v scalar option \<Rightarrow> error + 'v index_series)
     \<Rightarrow> 'v NumpyOrderIndicator \<Rightarrow> 'v NumpyOrderIndicator list \<Rightarrow> metrics_arg
     \<Rightarrow> 'v scalar option arg \<Rightarrow> error + 'v NumpyOrderIndicator" where
  "NumpyOrderIndicator_sum_all_indicators add order_indicator indicators metrics fill_value =
     numpy_sum_metrics add order_indicator indicators (metric_names metrics)
       (arg_or_default NumpyOrderIndicator_fill_value_default fill_value)"

section \<open>An arithmetic for the examples\<close>

text \<open>
  The examples below run on float64 series whose numbers are small integers. There the
  operations of float64 are exact: the sum or difference of two such numbers is the real
  sum or difference, a NaN operand gives NaN, a cast leaves a float64 value as it is,
  and the int 0 is stored as the number 0. No theorem that is stated for every
  arithmetic depends on this one.
\<close>

fun exact_add :: "fval \<Rightarrow> fval \<Rightarrow> fval" where
  "exact_add (Num x) (Num y) = Num (x + y)"
| "exact_add _ _ = NaN"

fun exact_sub :: "fval \<Rightarrow> fval \<Rightarrow> fval" where
  "exact_sub (Num x) (Num y) = Num (x - y)"
| "exact_sub _ _ = NaN"

definition small_float64 :: "fval arithmetic" where
  "small_float64 =
     \<lparr>v_add = exact_add, v_sub = exact_sub, v_isna = isna, v_nan = NaN,
      v_upcast = (\<lambda>v. v), v_int = (\<lambda>n. Num (of_int n)),
      v_fill = (\<lambda>s. case s of PyInt n \<Rightarrow> Num (of_int n) | PyFloat c \<Rightarrow> c)\<rparr>"

text \<open>
  Modelled from the spec: \<^verbatim>\<open>add\<close> of the missing \<^verbatim>\<open>IndexData.Series\<close>, for the
  examples of the performance backend. The spec: a union-of-labels addition where, for
  each label present in only one operand, the missing side is treated as the fill value,
  or left missing if the fill value is unset.
\<close>

definition IndexData_add ::
  "'v arithmetic \<Rightarrow> 'v index_series \<Rightarrow> 'v index_series \<Rightarrow> 'v scalar option
     \<Rightarrow> 'v index_series" where
  "IndexData_add ar a b fill_value =
     IndexSeries
       (\<lambda>l. case (entries a l, entries b l) of
               (None, None) \<Rightarrow> None
             | (Some x, Some y) \<Rightarrow> Some (v_add ar x y)
             | (Some x, None) \<Rightarrow>
                 Some (v_add ar x (case fill_value of None \<Rightarrow> v_nan ar | Some fv \<Rightarrow> v_fill ar fv))
             | (None, Some y) \<Rightarrow>
                 Some (v_add ar (case fill_value of None \<Rightarrow> v_nan ar | Some fv \<Rightarrow> v_fill ar fv) y))"

section \<open>Properties of the quote engine\<close>

lemma position_Some:
  "position ls n k = Some i \<Longrightarrow> n \<le> i \<and> i < n + length ls \<and> ls ! (i - n) = k"
proof (induction ls arbitrary: n)
  case Nil
  then show ?case by simp
next
  case (Cons l ls)
  show ?case
  proof (cases "k = l")
    case True
    with Cons.prems show ?thesis by simp
  next
    case False
    with Cons.prems have "position ls (Suc n) k = Some i" by simp
    from Cons.IH [OF this]
    have le: "Suc n \<le> i" and lt: "i < Suc n + length ls" and nth: "ls ! (i - Suc n) = k"
      by simp_all
    from le have "i - n = Suc (i - Suc n)" by arith
    then have "(l # ls) ! (i - n) = k" using nth by simp
    with le lt show ?thesis by simp
  qed
qed

lemma position_None: "position ls n k = None \<longleftrightarrow> k \<notin> set ls"
  by (induction ls arbitrary: n) auto

lemma index_map_absent: "index_map t k = None \<longleftrightarrow> k \<notin> set (index t)"
  by (simp add: index_map_def position_None)

lemma index_map_present:
  "index_map t k = Some i \<Longrightarrow> i < length (index t) \<and> index t ! i = k"
  using position_Some [of "index t" 0 k i] by (simp add: index_map_def)

lemma columns_map_present:
  "columns_map t f = Some j \<Longrightarrow> j < length (columns t) \<and> columns t ! j = f"
  using position_Some [of "columns t" 0 f j] by (simp add: columns_map_def)

lemma filter_np_ne_NaN: "filter (\<lambda>v. np_ne v NaN) data = data"
  by (induction data) auto

lemma agg_data_ts_data_last:
  "agg_data data MethodTsDataLast =
     (if data = [] then Inr None else Inr (Some (QScalar (hd data))))"
  by (cases data) (simp_all add: agg_data_def filter_np_ne_NaN)

text \<open>
  C9. On both quote backends, \<^verbatim>\<open>get_data\<close> with no field and a method that is not None
  fails at once with the configuration error (the ValueError of the first statement),
  whatever the entity, the time range and the engine's data are.
\<close>

theorem get_data_method_without_fields:
  assumes "method \<noteq> None"
  shows "PandasQuote_get_data resam_ts_data pq stock_id start_time end_time FieldsNone method
           = Inl (ValueError ''method must be None when fields is None'')
       \<and> CN1min_NumpyQuote_get_data nq stock_id start_time end_time None method
           = Inl (ValueError ''method must be None when fields is None'')"
  using assms by (simp add: PandasQuote_get_data_def CN1min_NumpyQuote_get_data_def)

theorem get_data_method_without_fields_witness:
  "Some (MethodStr ''sum'') \<noteq> None
   \<and> PandasQuote_get_data (\<lambda>d s e m. Inr None) \<lparr>pq_data = Map.empty\<rparr> ''A'' 60 180 FieldsNone
        (Some (MethodStr ''sum''))
       = Inl (ValueError ''method must be None when fields is None'')
   \<and> CN1min_NumpyQuote_get_data \<lparr>nq_data = Map.empty, nq_freq = 60\<rparr> ''A'' 60 180 None
        (Some (MethodStr ''sum''))
       = Inl (ValueError ''method must be None when fields is None'')"
  using get_data_method_without_fields [of "Some (MethodStr ''sum'')" "\<lambda>d s e m. Inr None"
      "\<lparr>pq_data = Map.empty\<rparr>" "''A''" 60 180 "\<lparr>nq_data = Map.empty, nq_freq = 60\<rparr>"]
  by simp

text \<open>
  The performance backend tests the entity id before it reads the table: an unknown id
  gives None for every valid combination of arguments.
\<close>

lemma CN1min_NumpyQuote_unknown_stock:
  "nq_data nq stock_id = None \<Longrightarrow> \<not> (field = None \<and> method \<noteq> None) \<Longrightarrow>
     CN1min_NumpyQuote_get_data nq stock_id start_time end_time field method = Inr None"
  by (auto simp: CN1min_NumpyQuote_get_data_def)

lemma PandasQuote_unknown_stock:
  "pq_data pq stock_id = None \<Longrightarrow> \<not> (field = FieldsNone \<and> method \<noteq> None) \<Longrightarrow>
     \<exists>e. PandasQuote_get_data resam_ts_data pq stock_id start_time end_time field method = Inl e"
  by (cases field) (auto simp: PandasQuote_get_data_def)

text \<open>
  C2. The claim: on every quote backend, \<^verbatim>\<open>get_data\<close> for an entity id that is not in
  the engine's data returns None and raises nothing. On the reference backend the code
  subscripts \<^verbatim>\<open>self.data[stock_id]\<close> with no test before it: for the engine that holds
  entity A with the closes 10, 11, 12 at the minutes 60, 120, 180, the call for the
  unknown entity B at minute 60 raises KeyError, with a field and without one.
\<close>

theorem PandasQuote_get_data_unknown_stock_raises:
  "PandasQuote_get_data resam_ts_data
     \<lparr>pq_data = [''A'' \<mapsto> \<lparr>index = [60, 120, 180], columns = [''$close''],
                            tvalues = [[Num 10], [Num 11], [Num 12]]\<rparr>]\<rparr>
     ''B'' 60 60 FieldsNone None = Inl KeyError
   \<and> PandasQuote_get_data resam_ts_data
     \<lparr>pq_data = [''A'' \<mapsto> \<lparr>index = [60, 120, 180], columns = [''$close''],
                            tvalues = [[Num 10], [Num 11], [Num 12]]\<rparr>]\<rparr>
     ''B'' 60 60 (FieldsStr ''$close'') None = Inl KeyError"
  by (simp add: PandasQuote_get_data_def)

text \<open>
  C5. The claim: the aggregation \<^verbatim>\<open>ts_data_last\<close> returns the first value of the slice
  that is not NaN, and None when every value is NaN. The code selects
  \<^verbatim>\<open>data[data != np.NaN]\<close>, and \<^verbatim>\<open>!=\<close> against NaN is true for every number, NaN
  included: nothing is filtered out. For the slice NaN, 1 the code returns NaN where the
  claim says 1, and for the slice NaN, NaN it returns NaN where the claim says None.
\<close>

theorem agg_data_ts_data_last_keeps_NaN:
  "agg_data [NaN, Num 1] MethodTsDataLast = Inr (Some (QScalar NaN))
   \<and> agg_data [NaN, NaN] MethodTsDataLast = Inr (Some (QScalar NaN))"
  by (simp add: agg_data_def)

text \<open>
  C8. On the single-timestamp fast path of the performance backend, for a known entity
  and a valid combination of arguments: when the table does not hold the timestamp,
  \<^verbatim>\<open>get_data\<close> returns None and raises nothing; when a table of the constructor's
  shape holds the timestamp, the result is the raw row at that label when no field is
  given, and the cell of that row in the field's column when a field of the table is
  given, whatever the method is.
\<close>

theorem get_data_single_timestamp:
  assumes known: "nq_data nq stock_id = Some df"
    and single: "if_single_data start_time end_time (nq_freq nq)"
    and valid: "\<not> (field = None \<and> meth \<noteq> None)"
  shows "(start_time \<notin> set (index df) \<longrightarrow>
            CN1min_NumpyQuote_get_data nq stock_id start_time end_time field meth = Inr None)
       \<and> (start_time \<in> set (index df) \<and> table_ok df \<longrightarrow>
            (\<exists>i < length (index df). index df ! i = start_time
               \<and> (field = None \<longrightarrow>
                    CN1min_NumpyQuote_get_data nq stock_id start_time end_time field meth
                      = Inr (Some (QRow (tvalues df ! i))))
               \<and> (\<forall>f \<in> set (columns df). field = Some f \<longrightarrow>
                    (\<exists>j < length (columns df). columns df ! j = f
                       \<and> CN1min_NumpyQuote_get_data nq stock_id start_time end_time field meth
                           = Inr (Some (QScalar (tvalues df ! i ! j)))))))"
proof (intro conjI impI)
  assume "start_time \<notin> set (index df)"
  then have "index_map df start_time = None"
    by (simp add: index_map_absent)
  with known single valid
  show "CN1min_NumpyQuote_get_data nq stock_id start_time end_time field meth = Inr None"
    by (auto simp: CN1min_NumpyQuote_get_data_def)
next
  assume "start_time \<in> set (index df) \<and> table_ok df"
  then have present: "start_time \<in> set (index df)" and shape: "table_ok df"
    by simp_all
  from present obtain i where i: "index_map df start_time = Some i"
    using index_map_absent [of df start_time] by (cases "index_map df start_time") auto
  from index_map_present [OF i]
  have i_lt: "i < length (index df)" and i_at: "index df ! i = start_time"
    by simp_all
  from shape i_lt have row: "row_at df i = Inr (tvalues df ! i)"
    by (simp add: row_at_def table_ok_def)
  from shape i_lt have row_len: "length (tvalues df ! i) = length (columns df)"
    by (simp add: table_ok_def)
  have no_field: "field = None \<longrightarrow>
      CN1min_NumpyQuote_get_data nq stock_id start_time end_time field meth
        = Inr (Some (QRow (tvalues df ! i)))"
    using known single valid i row by (auto simp: CN1min_NumpyQuote_get_data_def)
  have with_field: "\<forall>f \<in> set (columns df). field = Some f \<longrightarrow>
      (\<exists>j < length (columns df). columns df ! j = f
         \<and> CN1min_NumpyQuote_get_data nq stock_id start_time end_time field meth
             = Inr (Some (QScalar (tvalues df ! i ! j))))"
  proof (intro ballI impI)
    fix f
    assume f_in: "f \<in> set (columns df)" and f: "field = Some f"
    from f_in obtain j where j: "columns_map df f = Some j"
      by (cases "columns_map df f") (auto simp: columns_map_def position_None)
    from columns_map_present [OF j]
    have j_lt: "j < length (columns df)" and j_at: "columns df ! j = f"
      by simp_all
    from row row_len j_lt have "cell_at df i j = Inr (tvalues df ! i ! j)"
      by (simp add: cell_at_def)
    with known single i j f
    have "CN1min_NumpyQuote_get_data nq stock_id start_time end_time field meth
            = Inr (Some (QScalar (tvalues df ! i ! j)))"
      by (simp add: CN1min_NumpyQuote_get_data_def)
    with j_lt j_at
    show "\<exists>j < length (columns df). columns df ! j = f
            \<and> CN1min_NumpyQuote_get_data nq stock_id start_time end_time field meth
                = Inr (Some (QScalar (tvalues df ! i ! j)))"
      by blast
  qed
  from i_lt i_at no_field with_field
  show "\<exists>i < length (index df). index df ! i = start_time
          \<and> (field = None \<longrightarrow>
               CN1min_NumpyQuote_get_data nq stock_id start_time end_time field meth
                 = Inr (Some (QRow (tvalues df ! i))))
          \<and> (\<forall>f \<in> set (columns df). field = Some f \<longrightarrow>
               (\<exists>j < length (columns df). columns df ! j = f
                  \<and> CN1min_NumpyQuote_get_data nq stock_id start_time end_time field meth
                      = Inr (Some (QScalar (tvalues df ! i ! j)))))"
    by blast
qed

theorem get_data_single_timestamp_witness:
  "CN1min_NumpyQuote_get_data
     \<lparr>nq_data = [''A'' \<mapsto> \<lparr>index = [60, 120, 180], columns = [''$close''],
                            tvalues = [[Num 10], [Num 11], [Num 12]]\<rparr>], nq_freq = 60\<rparr>
     ''A'' 240 240 None None = Inr None
   \<and> CN1min_NumpyQuote_get_data
     \<lparr>nq_data = [''A'' \<mapsto> \<lparr>index = [60, 120, 180], columns = [''$close''],
                            tvalues = [[Num 10], [Num 11], [Num 12]]\<rparr>], nq_freq = 60\<rparr>
     ''A'' 120 120 (Some ''$close'') (Some (MethodStr ''mean'')) = Inr (Some (QScalar (Num 11)))"
proof -
  let ?df = "\<lparr>index = [60, 120, 180], columns = [''$close''],
              tvalues = [[Num 10], [Num 11], [Num 12]]\<rparr>"
  let ?nq = "\<lparr>nq_data = [''A'' \<mapsto> ?df], nq_freq = 60\<rparr>"
  have known: "nq_data ?nq ''A'' = Some ?df" by simp
  have shape: "table_ok ?df" by (simp add: table_ok_def)
  have single4: "if_single_data 240 240 (nq_freq ?nq)" by (simp add: if_single_data_def)
  have single2: "if_single_data 120 120 (nq_freq ?nq)" by (simp add: if_single_data_def)
  have absent: "CN1min_NumpyQuote_get_data ?nq ''A'' 240 240 None None = Inr None"
    using get_data_single_timestamp [OF known single4, of None None] by simp
  have present: "CN1min_NumpyQuote_get_data ?nq ''A'' 120 120 (Some ''$close'') (Some (MethodStr ''mean''))
         = Inr (Some (QScalar (Num 11)))"
    using get_data_single_timestamp [OF known single2, of "Some ''$close''" "Some (MethodStr ''mean'')"]
      shape
    by (auto simp: less_Suc_eq numeral_3_eq_3)
  from absent present show ?thesis by simp
qed

lemma loc_no_rows:
  "\<forall>l \<in> set (index df). \<not> (start_time \<le> l \<and> l \<le> end_time) \<Longrightarrow> loc df start_time end_time = []"
  by (auto simp: loc_def filter_empty_conv dest: set_zip_leftD)

lemma loc_field_no_rows:
  assumes shape: "table_ok df"
    and f_in: "f \<in> set (columns df)"
    and none: "loc df start_time end_time = []"
  shows "loc_field df start_time end_time f = Inr []"
proof -
  from f_in obtain j where j: "columns_map df f = Some j"
    by (cases "columns_map df f") (auto simp: columns_map_def position_None)
  from columns_map_present [OF j] have "j < length (columns df)" by simp
  with shape have "\<forall>r \<in> set (tvalues df). j < length r"
    by (simp add: table_ok_def)
  with j none show ?thesis
    by (simp add: loc_field_def)
qed

text \<open>
  C10. On the multi-timestamp path of the performance backend, for a known entity whose
  table has no time label in \<^verbatim>\<open>[start, end]\<close>, \<^verbatim>\<open>get_data\<close> returns None in the
  three cases: no field and no method, a field of the table without a method, a field of
  the table with any method. It returns neither an empty array nor an error.
\<close>

theorem get_data_empty_slice:
  assumes known: "nq_data nq stock_id = Some df"
    and multi: "\<not> if_single_data start_time end_time (nq_freq nq)"
    and shape: "table_ok df"
    and none: "\<forall>l \<in> set (index df). \<not> (start_time \<le> l \<and> l \<le> end_time)"
  shows "CN1min_NumpyQuote_get_data nq stock_id start_time end_time None None = Inr None
       \<and> (\<forall>f \<in> set (columns df).
             CN1min_NumpyQuote_get_data nq stock_id start_time end_time (Some f) None = Inr None
           \<and> (\<forall>m. CN1min_NumpyQuote_get_data nq stock_id start_time end_time (Some f) (Some m)
                     = Inr None))"
proof -
  from none have rows: "loc df start_time end_time = []"
    by (rule loc_no_rows)
  from known multi rows
  have whole: "CN1min_NumpyQuote_get_data nq stock_id start_time end_time None None = Inr None"
    by (simp add: CN1min_NumpyQuote_get_data_def)
  have column: "CN1min_NumpyQuote_get_data nq stock_id start_time end_time (Some f) None = Inr None
       \<and> (\<forall>m. CN1min_NumpyQuote_get_data nq stock_id start_time end_time (Some f) (Some m)
                 = Inr None)"
    if "f \<in> set (columns df)" for f
  proof -
    from loc_field_no_rows [OF shape that rows]
    have "loc_field df start_time end_time f = Inr []" .
    with known multi show ?thesis
      by (simp add: CN1min_NumpyQuote_get_data_def)
  qed
  from whole column show ?thesis by blast
qed

theorem get_data_empty_slice_witness:
  "CN1min_NumpyQuote_get_data
     \<lparr>nq_data = [''A'' \<mapsto> \<lparr>index = [60, 120, 180], columns = [''$close''],
                            tvalues = [[Num 10], [Num 11], [Num 12]]\<rparr>], nq_freq = 60\<rparr>
     ''A'' 240 360 None None = Inr None
   \<and> CN1min_NumpyQuote_get_data
     \<lparr>nq_data = [''A'' \<mapsto> \<lparr>index = [60, 120, 180], columns = [''$close''],
                            tvalues = [[Num 10], [Num 11], [Num 12]]\<rparr>], nq_freq = 60\<rparr>
     ''A'' 240 360 (Some ''$close'') None = Inr None
   \<and> CN1min_NumpyQuote_get_data
     \<lparr>nq_data = [''A'' \<mapsto> \<lparr>index = [60, 120, 180], columns = [''$close''],
                            tvalues = [[Num 10], [Num 11], [Num 12]]\<rparr>], nq_freq = 60\<rparr>
     ''A'' 240 360 (Some ''$close'') (Some (MethodStr ''mean'')) = Inr None"
proof -
  let ?df = "\<lparr>index = [60, 120, 180], columns = [''$close''],
              tvalues = [[Num 10], [Num 11], [Num 12]]\<rparr>"
  let ?nq = "\<lparr>nq_data = [''A'' \<mapsto> ?df], nq_freq = 60\<rparr>"
  have known: "nq_data ?nq ''A'' = Some ?df" by simp
  have multi: "\<not> if_single_data 240 360 (nq_freq ?nq)" by (simp add: if_single_data_def)
  have shape: "table_ok ?df" by (simp add: table_ok_def)
  have none: "\<forall>l \<in> set (index ?df). \<not> (240 \<le> l \<and> l \<le> 360)" by simp
  from get_data_empty_slice [OF known multi shape none] show ?thesis by simp
qed

text \<open>The multi-timestamp path on rows that exist: the mean of 10, 11, 12 is 11.\<close>

lemma get_data_mean_scenario:
  "CN1min_NumpyQuote_get_data
     \<lparr>nq_data = [''A'' \<mapsto> \<lparr>index = [60, 120, 180], columns = [''$close''],
                            tvalues = [[Num 10], [Num 11], [Num 12]]\<rparr>], nq_freq = 60\<rparr>
     ''A'' 60 180 (Some ''$close'') (Some (MethodStr ''mean'')) = Inr (Some (QScalar (Num 11)))"
  by (simp add: CN1min_NumpyQuote_get_data_def if_single_data_def loc_field_def loc_def
      columns_map_def agg_data_def nanmean_def nansum_def)

section \<open>Properties of the single metric\<close>

lemma dom_pd_add: "dom (pd_add ar a b fill_value) = dom a \<union> dom b"
  by (auto simp: pd_add_def dom_def split: prod.splits if_splits)

text \<open>
  What \<^verbatim>\<open>Series.add\<close> does with a fill value at a label of the union, in every
  arithmetic: where exactly one side is missing it takes the fill value, where both or
  neither are missing the two sides are added as they are.
\<close>

lemma pd_add_fill_at:
  assumes "a l \<noteq> None \<or> b l \<noteq> None"
  shows "pd_add ar a b (Some fv) l =
           Some (if v_isna ar (reindexed ar a b l) = v_isna ar (reindexed ar b a l)
                 then v_add ar (reindexed ar a b l) (reindexed ar b a l)
                 else v_add ar
                        (if v_isna ar (reindexed ar a b l) then v_fill ar fv
                         else reindexed ar a b l)
                        (if v_isna ar (reindexed ar b a l) then v_fill ar fv
                         else reindexed ar b a l))"
  using assms by (auto simp: pd_add_def fill_binop_def Let_def)

lemma pd_add_both_missing:
  assumes "a l \<noteq> None \<or> b l \<noteq> None"
    and "v_isna ar (reindexed ar a b l)" and "v_isna ar (reindexed ar b a l)"
  shows "pd_add ar a b (Some fv) l = Some (v_add ar (reindexed ar a b l) (reindexed ar b a l))"
  using assms by (simp add: pd_add_fill_at)

text \<open>
  C3. The claim: for single metrics A and B whose label sets overlap and differ,
  \<^verbatim>\<open>A.add(B, fill_value=0)\<close> has the union of the labels, and its value at each label
  is a + b with a missing side read as 0, as the docstring of \<^verbatim>\<open>add\<close> says (replace
  NaN with the fill value in the two metrics and add them). The label set is the union
  (\<open>dom_pd_add\<close>). The values are not: pandas fills a side only where the other side is
  not missing. For A = (s1: NaN, s2: NaN, s4: 1) and B = (s2: 3, s3: 2, s4: 1) the code
  gives NaN at s1, where A holds NaN and B has no entry, and the claim says 0 + 0 = 0;
  at s2, s3 and s4 it gives 3, 2 and 2.
\<close>

theorem PandasSingleMetric_add_leaves_NaN:
  "metric (PandasSingleMetric_add small_float64
             (PandasSingleMetric [''s1'' \<mapsto> NaN, ''s2'' \<mapsto> NaN, ''s4'' \<mapsto> Num 1])
             (PandasSingleMetric [''s2'' \<mapsto> Num 3, ''s3'' \<mapsto> Num 2, ''s4'' \<mapsto> Num 1])
             (Some (PyInt 0))) ''s1'' = Some NaN
   \<and> metric (PandasSingleMetric_add small_float64
             (PandasSingleMetric [''s1'' \<mapsto> NaN, ''s2'' \<mapsto> NaN, ''s4'' \<mapsto> Num 1])
             (PandasSingleMetric [''s2'' \<mapsto> Num 3, ''s3'' \<mapsto> Num 2, ''s4'' \<mapsto> Num 1])
             (Some (PyInt 0))) ''s2'' = Some (Num 3)
   \<and> metric (PandasSingleMetric_add small_float64
             (PandasSingleMetric [''s1'' \<mapsto> NaN, ''s2'' \<mapsto> NaN, ''s4'' \<mapsto> Num 1])
             (PandasSingleMetric [''s2'' \<mapsto> Num 3, ''s3'' \<mapsto> Num 2, ''s4'' \<mapsto> Num 1])
             (Some (PyInt 0))) ''s3'' = Some (Num 2)
   \<and> metric (PandasSingleMetric_add small_float64
             (PandasSingleMetric [''s1'' \<mapsto> NaN, ''s2'' \<mapsto> NaN, ''s4'' \<mapsto> Num 1])
             (PandasSingleMetric [''s2'' \<mapsto> Num 3, ''s3'' \<mapsto> Num 2, ''s4'' \<mapsto> Num 1])
             (Some (PyInt 0))) ''s4'' = Some (Num 2)"
  by (simp add: PandasSingleMetric_add_def pd_add_def fill_binop_def reindexed_def
      small_float64_def)

lemma pd_scalar_left_at: "pd_scalar_left f c a l = map_option (f c) (a l)"
  by (simp add: pd_scalar_left_def)

lemma pd_scalar_right_at: "pd_scalar_right f a c l = map_option (\<lambda>v. f v c) (a l)"
  by (simp add: pd_scalar_right_def)

text \<open>
  C7. The reflected subtraction of a single metric A, in the arithmetic of its entries:
  for a scalar c (an int or a float), \<^verbatim>\<open>c - A\<close> is a metric whose entry at each label of
  A is c - a, not a - c; for another metric B, it is \<^verbatim>\<open>B - A\<close>, the same metric that
  the subtraction of B computes with A as its right operand, entry by entry other - self
  on the union of the labels.
\<close>

theorem SingleMetric_rsub_order:
  "(\<exists>R. SingleMetric_rsub ar A (OpInt n) = Returned R
        \<and> (\<forall>l. metric R l = map_option (\<lambda>a. v_sub ar (v_int ar n) a) (metric A l)))
   \<and> (\<exists>R. SingleMetric_rsub ar A (OpFloat c) = Returned R
        \<and> (\<forall>l. metric R l = map_option (\<lambda>a. v_sub ar c a) (metric A l)))
   \<and> (\<exists>R. SingleMetric_rsub ar A (OpMetric B) = Returned R
        \<and> SingleMetric_sub ar B (OpMetric A) = Returned R
        \<and> (\<forall>l. metric R l =
              (if metric A l = None \<and> metric B l = None then None
               else Some (v_sub ar (reindexed ar (metric B) (metric A) l)
                                   (reindexed ar (metric A) (metric B) l)))))"
  by (simp add: SingleMetric_rsub_def SingleMetric_sub_def pd_scalar_left_at pd_binop_def
      conj_commute)

theorem SingleMetric_rsub_order_witness:
  "\<exists>R. SingleMetric_rsub small_float64 (PandasSingleMetric [''s1'' \<mapsto> Num 2, ''s2'' \<mapsto> NaN])
          (OpInt 5) = Returned R
       \<and> metric R ''s1'' = Some (Num 3) \<and> metric R ''s1'' \<noteq> Some (Num (- 3))
       \<and> metric R ''s2'' = Some NaN \<and> metric R ''s3'' = None"
proof -
  let ?A = "PandasSingleMetric [''s1'' \<mapsto> Num 2, ''s2'' \<mapsto> NaN]"
  from SingleMetric_rsub_order [of small_float64 ?A 5 NaN ?A]
  obtain R where r: "SingleMetric_rsub small_float64 ?A (OpInt 5) = Returned R"
    and v: "\<forall>l. metric R l
              = map_option (\<lambda>a. v_sub small_float64 (v_int small_float64 5) a) (metric ?A l)"
    by blast
  from v have "metric R ''s1'' = Some (Num 3)" "metric R ''s2'' = Some NaN" "metric R ''s3'' = None"
    by (simp_all add: small_float64_def)
  with r show ?thesis by simp
qed

text \<open>
  The subtraction itself has the other order: the entries of \<^verbatim>\<open>A - c\<close> are a - c.
\<close>

lemma SingleMetric_sub_order:
  "\<exists>R. SingleMetric_sub ar A (OpInt n) = Returned R
       \<and> (\<forall>l. metric R l = map_option (\<lambda>a. v_sub ar a (v_int ar n)) (metric A l))"
  by (simp add: SingleMetric_sub_def pd_scalar_right_at)

section \<open>Properties of the order indicators\<close>

lemma PandasOrderIndicator_get_metric_series_present:
  "po_data self name = Some m \<Longrightarrow>
     PandasOrderIndicator_get_metric_series self name = Inr (metric m)"
  by (simp add: PandasOrderIndicator_get_metric_series_def)

lemma PandasOrderIndicator_get_metric_series_absent:
  "po_data self name = None \<Longrightarrow>
     PandasOrderIndicator_get_metric_series self name = Inr Map.empty"
  by (simp add: PandasOrderIndicator_get_metric_series_def)

lemma NumpyOrderIndicator_get_metric_series_present:
  "no_data self name = Some s \<Longrightarrow>
     NumpyOrderIndicator_get_metric_series self name = Inr (entries s)"
  by (simp add: NumpyOrderIndicator_get_metric_series_def to_pd_series_def)

lemma NumpyOrderIndicator_get_metric_series_absent:
  "no_data self name = None \<Longrightarrow>
     NumpyOrderIndicator_get_metric_series self name = Inl KeyError"
  by (simp add: NumpyOrderIndicator_get_metric_series_def)

text \<open>
  C1. The claim: on both backends \<^verbatim>\<open>get_metric_series(name)\<close> returns the stored
  metric for a name that is present and an empty series for a name that is absent, and
  never raises. The reference backend does so. The performance backend subscripts
  \<^verbatim>\<open>self.data[metric]\<close> with no test: on a new indicator, and on one that holds only
  the metric pa, the name ffr raises KeyError, where \<^verbatim>\<open>get_index_data\<close> of the same
  class and \<^verbatim>\<open>get_metric_series\<close> of the reference backend return an empty series.
\<close>

theorem NumpyOrderIndicator_get_metric_series_raises:
  "NumpyOrderIndicator_get_metric_series NumpyOrderIndicator_init ''ffr'' = Inl KeyError
   \<and> NumpyOrderIndicator_get_metric_series
       (NumpyOrderIndicator_assign NumpyOrderIndicator_init ''pa'' [''s1'' \<mapsto> Num 1]) ''ffr''
       = Inl KeyError
   \<and> NumpyOrderIndicator_get_index_data NumpyOrderIndicator_init ''ffr'' = IndexData_Series_empty
   \<and> PandasOrderIndicator_get_metric_series PandasOrderIndicator_init ''ffr'' = Inr Map.empty"
  by (simp add: NumpyOrderIndicator_get_metric_series_def NumpyOrderIndicator_init_def
      NumpyOrderIndicator_assign_def NumpyOrderIndicator_get_index_data_def
      PandasOrderIndicator_get_metric_series_def PandasOrderIndicator_init_def)

subsection \<open>The sum over the indicators\<close>

text \<open>
  The inner loops are left folds of \<^verbatim>\<open>add\<close> over the indicators, with the fill value
  passed on to every call.
\<close>

lemma pandas_sum_metric_fold:
  "\<forall>i \<in> set indicators. po_data i name \<noteq> None \<Longrightarrow>
     pandas_sum_metric ar tmp indicators name fv =
       Inr (foldl (\<lambda>acc i. PandasSingleMetric_add ar acc (the (po_data i name)) fv)
              tmp indicators)"
  by (induction indicators arbitrary: tmp) auto

lemma numpy_sum_metric_fold:
  "\<forall>i \<in> set indicators. no_data i name \<noteq> None \<Longrightarrow>
     numpy_sum_metric (\<lambda>a b f. Inr (g a b f)) tmp indicators name fv =
       Inr (foldl (\<lambda>acc i. g acc (the (no_data i name)) fv) tmp indicators)"
  by (induction indicators arbitrary: tmp) auto

lemma pandas_sum_metrics_fold:
  assumes "\<forall>i \<in> set indicators. \<forall>n \<in> set names. po_data i n \<noteq> None"
  shows "pandas_sum_metrics ar t indicators names fv =
           Inr (t\<lparr>po_data := \<lambda>k. if k \<in> set names
                  then Some (foldl (\<lambda>acc i. PandasSingleMetric_add ar acc (the (po_data i k)) fv)
                               (PandasSingleMetric Map.empty) indicators)
                  else po_data t k\<rparr>)"
  using assms
proof (induction names arbitrary: t)
  case Nil
  then show ?case by simp
next
  case (Cons n ns)
  let ?total = "\<lambda>k. foldl (\<lambda>acc i. PandasSingleMetric_add ar acc (the (po_data i k)) fv)
                        (PandasSingleMetric Map.empty) indicators"
  let ?t = "t\<lparr>po_data := (po_data t)(n \<mapsto> ?total n)\<rparr>"
  from Cons.prems have here: "\<forall>i \<in> set indicators. po_data i n \<noteq> None"
    and rest: "\<forall>i \<in> set indicators. \<forall>n \<in> set ns. po_data i n \<noteq> None"
    by simp_all
  have "pandas_sum_metrics ar t indicators (n # ns) fv = pandas_sum_metrics ar ?t indicators ns fv"
    by (simp add: PandasSingleMetric_init_def PandasOrderIndicator_assign_def
        pandas_sum_metric_fold [OF here])
  also have "\<dots> = Inr (?t\<lparr>po_data := \<lambda>k. if k \<in> set ns then Some (?total k) else po_data ?t k\<rparr>)"
    by (rule Cons.IH [OF rest])
  also have "(\<lambda>k. if k \<in> set ns then Some (?total k) else po_data ?t k)
      = (\<lambda>k. if k \<in> set (n # ns) then Some (?total k) else po_data t k)"
    by (auto simp: fun_eq_iff)
  finally show ?case by simp
qed

lemma numpy_sum_metrics_fold:
  assumes "\<forall>i \<in> set indicators. \<forall>n \<in> set names. no_data i n \<noteq> None"
  shows "numpy_sum_metrics (\<lambda>a b f. Inr (g a b f)) t indicators names fv =
           Inr (t\<lparr>no_data := \<lambda>k. if k \<in> set names
                  then Some (foldl (\<lambda>acc i. g acc (the (no_data i k)) fv)
                               IndexData_Series_empty indicators)
                  else no_data t k\<rparr>)"
  using assms
proof (induction names arbitrary: t)
  case Nil
  then show ?case by simp
next
  case (Cons n ns)
  let ?total = "\<lambda>k. foldl (\<lambda>acc i. g acc (the (no_data i k)) fv)
                        IndexData_Series_empty indicators"
  let ?t = "t\<lparr>no_data := (no_data t)(n \<mapsto> ?total n)\<rparr>"
  from Cons.prems have here: "\<forall>i \<in> set indicators. no_data i n \<noteq> None"
    and rest: "\<forall>i \<in> set indicators. \<forall>n \<in> set ns. no_data i n \<noteq> None"
    by simp_all
  have "numpy_sum_metrics (\<lambda>a b f. Inr (g a b f)) t indicators (n # ns) fv
          = numpy_sum_metrics (\<lambda>a b f. Inr (g a b f)) ?t indicators ns fv"
    by (simp add: numpy_sum_metric_fold [OF here])
  also have "\<dots> = Inr (?t\<lparr>no_data := \<lambda>k. if k \<in> set ns then Some (?total k) else no_data ?t k\<rparr>)"
    by (rule Cons.IH [OF rest])
  also have "(\<lambda>k. if k \<in> set ns then Some (?total k) else no_data ?t k)
      = (\<lambda>k. if k \<in> set (n # ns) then Some (?total k) else no_data t k)"
    by (auto simp: fun_eq_iff)
  finally show ?case by simp
qed

lemma pandas_sum_metrics_no_indicators:
  "pandas_sum_metrics ar t [] names fv =
     Inr (t\<lparr>po_data := \<lambda>k. if k \<in> set names then Some (PandasSingleMetric Map.empty)
                           else po_data t k\<rparr>)"
proof (induction names arbitrary: t)
  case Nil
  then show ?case by simp
next
  case (Cons n ns)
  let ?e = "PandasSingleMetric Map.empty"
  let ?t = "t\<lparr>po_data := (po_data t)(n \<mapsto> ?e)\<rparr>"
  have "pandas_sum_metrics ar t [] (n # ns) fv = pandas_sum_metrics ar ?t [] ns fv"
    by (simp add: PandasSingleMetric_init_def PandasOrderIndicator_assign_def)
  also have "\<dots> = Inr (?t\<lparr>po_data := \<lambda>k. if k \<in> set ns then Some ?e else po_data ?t k\<rparr>)"
    by (rule Cons.IH)
  also have "(\<lambda>k. if k \<in> set ns then Some ?e else po_data ?t k)
      = (\<lambda>k. if k \<in> set (n # ns) then Some ?e else po_data t k)"
    by (auto simp: fun_eq_iff)
  finally show ?case by simp
qed

lemma numpy_sum_metrics_no_indicators:
  "numpy_sum_metrics add t [] names fv =
     Inr (t\<lparr>no_data := \<lambda>k. if k \<in> set names then Some IndexData_Series_empty
                           else no_data t k\<rparr>)"
proof (induction names arbitrary: t)
  case Nil
  then show ?case by simp
next
  case (Cons n ns)
  let ?t = "t\<lparr>no_data := (no_data t)(n \<mapsto> IndexData_Series_empty)\<rparr>"
  have "numpy_sum_metrics add t [] (n # ns) fv = numpy_sum_metrics add ?t [] ns fv"
    by simp
  also have "\<dots> = Inr (?t\<lparr>no_data := \<lambda>k. if k \<in> set ns then Some IndexData_Series_empty
                                         else no_data ?t k\<rparr>)"
    by (rule Cons.IH)
  also have "(\<lambda>k. if k \<in> set ns then Some IndexData_Series_empty else no_data ?t k)
      = (\<lambda>k. if k \<in> set (n # ns) then Some IndexData_Series_empty else no_data t k)"
    by (auto simp: fun_eq_iff)
  finally show ?case by simp
qed

text \<open>
  C4. For every target indicator, every requested metric name and every fill value,
  \<^verbatim>\<open>sum_all_indicators\<close> with the empty list of indicators raises nothing and leaves
  under each requested name of the target an empty metric, of length zero, on both
  backends.
\<close>

theorem sum_all_indicators_no_indicators:
  "(\<exists>t'. PandasOrderIndicator_sum_all_indicators ar target [] metrics fill_value = Inr t'
         \<and> (\<forall>name \<in> set (metric_names metrics).
               \<exists>m. po_data t' name = Some m \<and> metric m = Map.empty \<and> SingleMetric_len m = 0))
   \<and> (\<exists>t'. NumpyOrderIndicator_sum_all_indicators add ntarget [] metrics fill_value = Inr t'
         \<and> (\<forall>name \<in> set (metric_names metrics).
               \<exists>s. no_data t' name = Some s \<and> to_pd_series s = Map.empty
                   \<and> card (dom (to_pd_series s)) = 0))"
  by (simp add: PandasOrderIndicator_sum_all_indicators_def pandas_sum_metrics_no_indicators
      NumpyOrderIndicator_sum_all_indicators_def numpy_sum_metrics_no_indicators
      SingleMetric_len_def IndexData_Series_empty_def to_pd_series_def)

theorem sum_all_indicators_no_indicators_witness:
  "(\<exists>t'. PandasOrderIndicator_sum_all_indicators small_float64 PandasOrderIndicator_init []
            (MetricsStr ''ffr'') (Passed (Some (PyInt 0))) = Inr t'
         \<and> (\<exists>m. po_data t' ''ffr'' = Some m \<and> metric m = Map.empty \<and> SingleMetric_len m = 0))
   \<and> (\<exists>t'. NumpyOrderIndicator_sum_all_indicators
            (\<lambda>a b f. Inl KeyError :: error + fval index_series) NumpyOrderIndicator_init []
            (MetricsStr ''ffr'') Omitted = Inr t'
         \<and> (\<exists>s. no_data t' ''ffr'' = Some s \<and> to_pd_series s = Map.empty
                   \<and> card (dom (to_pd_series s)) = 0))"
  using sum_all_indicators_no_indicators [of small_float64 PandasOrderIndicator_init
      "MetricsStr ''ffr''" "Passed (Some (PyInt 0))"
      "\<lambda>a b f. Inl KeyError :: error + fval index_series" NumpyOrderIndicator_init]
    sum_all_indicators_no_indicators [of small_float64 PandasOrderIndicator_init
      "MetricsStr ''ffr''" Omitted
      "\<lambda>a b f. Inl KeyError :: error + fval index_series" NumpyOrderIndicator_init]
  by (simp add: metric_names_def)

text \<open>With no fill value, \<^verbatim>\<open>add\<close> is the operator \<^verbatim>\<open>+\<close>: nothing is filled.\<close>

lemma fill_binop_None: "fill_binop ar x y None = (x, y)"
  by (simp add: fill_binop_def)

lemma PandasSingleMetric_add_no_fill:
  "Returned (PandasSingleMetric_add ar a b None) = SingleMetric_add ar a (OpMetric b)"
  by (simp add: PandasSingleMetric_add_def SingleMetric_add_def pd_add_def pd_binop_def
      fill_binop_None cong: if_cong)

text \<open>
  C6. The default of \<^verbatim>\<open>fill_value\<close> in \<^verbatim>\<open>sum_all_indicators\<close> differs between the
  backends, None on the reference backend and 0 on the performance backend, and a call
  that leaves \<^verbatim>\<open>fill_value\<close> out sums with the backend's own default: when every
  indicator holds the requested metrics, the target receives under each requested name
  the sum of that metric over the indicators in list order, starting from an empty
  metric, every \<^verbatim>\<open>add\<close> of the reference backend called with the fill value None (so
  that it is the operator \<^verbatim>\<open>+\<close>, which leaves missing entries missing) and every
  \<^verbatim>\<open>add\<close> of the performance backend called with the fill value 0.
\<close>

theorem sum_all_indicators_default_fill_value:
  assumes pandas_hold: "\<forall>i \<in> set indicators. \<forall>n \<in> set (metric_names metrics). po_data i n \<noteq> None"
    and numpy_hold: "\<forall>i \<in> set nindicators. \<forall>n \<in> set (metric_names metrics). no_data i n \<noteq> None"
  shows "(\<exists>t'. PandasOrderIndicator_sum_all_indicators ar target indicators metrics Omitted = Inr t'
            \<and> (\<forall>n \<in> set (metric_names metrics).
                  po_data t' n =
                    Some (foldl (\<lambda>acc i. PandasSingleMetric_add ar acc (the (po_data i n)) None)
                            (PandasSingleMetric Map.empty) indicators))
            \<and> (\<forall>n. n \<notin> set (metric_names metrics) \<longrightarrow> po_data t' n = po_data target n))
       \<and> (\<forall>a b. Returned (PandasSingleMetric_add ar a b None) = SingleMetric_add ar a (OpMetric b))
       \<and> (\<exists>t'. NumpyOrderIndicator_sum_all_indicators (\<lambda>a b f. Inr (g a b f)) ntarget nindicators
                 metrics Omitted = Inr t'
            \<and> (\<forall>n \<in> set (metric_names metrics).
                  no_data t' n =
                    Some (foldl (\<lambda>acc i. g acc (the (no_data i n)) (Some (PyInt 0)))
                            IndexData_Series_empty nindicators))
            \<and> (\<forall>n. n \<notin> set (metric_names metrics) \<longrightarrow> no_data t' n = no_data ntarget n))
       \<and> PandasOrderIndicator_sum_all_indicators ar target indicators metrics Omitted
           = PandasOrderIndicator_sum_all_indicators ar target indicators metrics (Passed None)
       \<and> NumpyOrderIndicator_sum_all_indicators add ntarget nindicators metrics Omitted
           = NumpyOrderIndicator_sum_all_indicators add ntarget nindicators metrics
               (Passed (Some (PyInt 0)))"
proof (intro conjI)
  show "\<exists>t'. PandasOrderIndicator_sum_all_indicators ar target indicators metrics Omitted = Inr t'
            \<and> (\<forall>n \<in> set (metric_names metrics).
                  po_data t' n =
                    Some (foldl (\<lambda>acc i. PandasSingleMetric_add ar acc (the (po_data i n)) None)
                            (PandasSingleMetric Map.empty) indicators))
            \<and> (\<forall>n. n \<notin> set (metric_names metrics) \<longrightarrow> po_data t' n = po_data target n)"
    by (simp add: PandasOrderIndicator_sum_all_indicators_def arg_or_default_def
        PandasOrderIndicator_fill_value_default_def pandas_sum_metrics_fold [OF pandas_hold])
next
  show "\<forall>a b. Returned (PandasSingleMetric_add ar a b None) = SingleMetric_add ar a (OpMetric b)"
    by (simp add: PandasSingleMetric_add_no_fill)
next
  show "\<exists>t'. NumpyOrderIndicator_sum_all_indicators (\<lambda>a b f. Inr (g a b f)) ntarget nindicators
                 metrics Omitted = Inr t'
            \<and> (\<forall>n \<in> set (metric_names metrics).
                  no_data t' n =
                    Some (foldl (\<lambda>acc i. g acc (the (no_data i n)) (Some (PyInt 0)))
                            IndexData_Series_empty nindicators))
            \<and> (\<forall>n. n \<notin> set (metric_names metrics) \<longrightarrow> no_data t' n = no_data ntarget n)"
    by (simp add: NumpyOrderIndicator_sum_all_indicators_def arg_or_default_def
        NumpyOrderIndicator_fill_value_default_def numpy_sum_metrics_fold [OF numpy_hold])
next
  show "PandasOrderIndicator_sum_all_indicators ar target indicators metrics Omitted
           = PandasOrderIndicator_sum_all_indicators ar target indicators metrics (Passed None)"
    by (simp add: PandasOrderIndicator_sum_all_indicators_def arg_or_default_def
        PandasOrderIndicator_fill_value_default_def)
next
  show "NumpyOrderIndicator_sum_all_indicators add ntarget nindicators metrics Omitted
           = NumpyOrderIndicator_sum_all_indicators add ntarget nindicators metrics
               (Passed (Some (PyInt 0)))"
    by (simp add: NumpyOrderIndicator_sum_all_indicators_def arg_or_default_def
        NumpyOrderIndicator_fill_value_default_def)
qed

theorem sum_all_indicators_default_fill_value_witness:
  "(\<exists>t'. PandasOrderIndicator_sum_all_indicators small_float64 PandasOrderIndicator_init
            [\<lparr>po_data = [''deal_amount'' \<mapsto> PandasSingleMetric [''s1'' \<mapsto> Num 5]]\<rparr>,
             \<lparr>po_data = [''deal_amount'' \<mapsto> PandasSingleMetric [''s2'' \<mapsto> Num 3]]\<rparr>]
            (MetricsStr ''deal_amount'') Omitted = Inr t'
        \<and> map_option (\<lambda>m. (metric m ''s1'', metric m ''s2'', metric m ''s3''))
              (po_data t' ''deal_amount'')
            = Some (Some NaN, Some NaN, None))
   \<and> (\<exists>t'. NumpyOrderIndicator_sum_all_indicators
            (\<lambda>a b f. Inr (IndexData_add small_float64 a b f)) NumpyOrderIndicator_init
            [\<lparr>no_data = [''deal_amount'' \<mapsto> IndexSeries [''s1'' \<mapsto> Num 5]]\<rparr>,
             \<lparr>no_data = [''deal_amount'' \<mapsto> IndexSeries [''s2'' \<mapsto> Num 3]]\<rparr>]
            (MetricsStr ''deal_amount'') Omitted = Inr t'
        \<and> map_option (\<lambda>s. (entries s ''s1'', entries s ''s2'', entries s ''s3''))
              (no_data t' ''deal_amount'')
            = Some (Some (Num 5), Some (Num 3), None))"
proof -
  let ?p1 = "\<lparr>po_data = [''deal_amount'' \<mapsto> PandasSingleMetric [''s1'' \<mapsto> Num 5]]\<rparr>"
  let ?p2 = "\<lparr>po_data = [''deal_amount'' \<mapsto> PandasSingleMetric [''s2'' \<mapsto> Num 3]]\<rparr>"
  let ?n1 = "\<lparr>no_data = [''deal_amount'' \<mapsto> IndexSeries [''s1'' \<mapsto> Num 5]]\<rparr>"
  let ?n2 = "\<lparr>no_data = [''deal_amount'' \<mapsto> IndexSeries [''s2'' \<mapsto> Num 3]]\<rparr>"
  have pandas_hold: "\<forall>i \<in> set [?p1, ?p2]. \<forall>n \<in> set (metric_names (MetricsStr ''deal_amount'')).
      po_data i n \<noteq> None"
    by (simp add: metric_names_def)
  have numpy_hold: "\<forall>i \<in> set [?n1, ?n2]. \<forall>n \<in> set (metric_names (MetricsStr ''deal_amount'')).
      no_data i n \<noteq> None"
    by (simp add: metric_names_def)
  note inst = sum_all_indicators_default_fill_value [OF pandas_hold numpy_hold,
      of small_float64 PandasOrderIndicator_init "IndexData_add small_float64"
         NumpyOrderIndicator_init]
  from inst obtain t' where
    p: "PandasOrderIndicator_sum_all_indicators small_float64 PandasOrderIndicator_init
          [?p1, ?p2] (MetricsStr ''deal_amount'') Omitted = Inr t'"
    and pv: "\<forall>n \<in> set (metric_names (MetricsStr ''deal_amount'')).
          po_data t' n =
            Some (foldl (\<lambda>acc i. PandasSingleMetric_add small_float64 acc (the (po_data i n)) None)
                    (PandasSingleMetric Map.empty) [?p1, ?p2])"
    by blast
  from pv have "po_data t' ''deal_amount'' =
      Some (PandasSingleMetric_add small_float64
              (PandasSingleMetric_add small_float64 (PandasSingleMetric Map.empty)
                 (PandasSingleMetric [''s1'' \<mapsto> Num 5]) None)
              (PandasSingleMetric [''s2'' \<mapsto> Num 3]) None)"
    by (simp add: metric_names_def)
  then have pandas_values:
    "map_option (\<lambda>m. (metric m ''s1'', metric m ''s2'', metric m ''s3''))
       (po_data t' ''deal_amount'') = Some (Some NaN, Some NaN, None)"
    by (simp add: PandasSingleMetric_add_def pd_add_def fill_binop_def reindexed_def
        small_float64_def)
  from inst obtain u' where
    n: "NumpyOrderIndicator_sum_all_indicators
          (\<lambda>a b f. Inr (IndexData_add small_float64 a b f)) NumpyOrderIndicator_init
          [?n1, ?n2] (MetricsStr ''deal_amount'') Omitted = Inr u'"
    and nv: "\<forall>n \<in> set (metric_names (MetricsStr ''deal_amount'')).
          no_data u' n =
            Some (foldl (\<lambda>acc i. IndexData_add small_float64 acc (the (no_data i n)) (Some (PyInt 0)))
                    IndexData_Series_empty [?n1, ?n2])"
    by blast
  from nv have "no_data u' ''deal_amount'' =
      Some (IndexData_add small_float64
              (IndexData_add small_float64 IndexData_Series_empty
                 (IndexSeries [''s1'' \<mapsto> Num 5]) (Some (PyInt 0)))
              (IndexSeries [''s2'' \<mapsto> Num 3]) (Some (PyInt 0)))"
    by (simp add: metric_names_def)
  then have numpy_values:
    "map_option (\<lambda>s. (entries s ''s1'', entries s ''s2'', entries s ''s3''))
       (no_data u' ''deal_amount'') = Some (Some (Num 5), Some (Num 3), None)"
    by (simp add: IndexData_add_def IndexData_Series_empty_def small_float64_def)
  from p pandas_values n numpy_values show ?thesis by blast
qed

text \<open>
  The scenario of two indicators whose metric deal\_amount is (s1: 5) and
  (s1: NaN, s2: 3), summed on the reference backend with the fill value 0: the target
  holds (s1: 5, s2: 3).
\<close>

lemma pandas_fill_zero_scenario:
  "\<exists>t'. PandasOrderIndicator_sum_all_indicators small_float64 PandasOrderIndicator_init
          [\<lparr>po_data = [''deal_amount'' \<mapsto> PandasSingleMetric [''s1'' \<mapsto> Num 5]]\<rparr>,
           \<lparr>po_data = [''deal_amount'' \<mapsto> PandasSingleMetric [''s1'' \<mapsto> NaN, ''s2'' \<mapsto> Num 3]]\<rparr>]
          (MetricsStr ''deal_amount'') (Passed (Some (PyInt 0))) = Inr t'
        \<and> map_option (\<lambda>m. (metric m ''s1'', metric m ''s2'')) (po_data t' ''deal_amount'')
            = Some (Some (Num 5), Some (Num 3))"
  by (simp add: PandasOrderIndicator_sum_all_indicators_def metric_names_def arg_or_default_def
      PandasSingleMetric_init_def PandasOrderIndicator_assign_def PandasSingleMetric_add_def
      pd_add_def fill_binop_def reindexed_def PandasOrderIndicator_init_def small_float64_def)

end
